theory Spec2Isabelle
  imports Complex_Main "HOL-Library.AList" "HOL-Library.Multiset"
begin

section \<open>Values, rows and data frames\<close>

text \<open>
  The reject-sampling engine of \<^verbatim>\<open>sdv/tabular/base.py\<close> works on pandas data frames.
  A cell is a Python scalar. Python floats are modelled as exact rationals: rounding,
  infinities and NaN cells are outside the model. A row is an association list from
  column names to cells, in column order; a frame carries the \<^verbatim>\<open>dtype.kind\<close> of each
  column beside its rows.
\<close>

datatype pyval = IntV int | FloatV rat | StrV string

datatype dkind = KindF | KindI | KindO

type_synonym row = "(string \<times> pyval) list"

record frame =
  dtypes :: "(string \<times> dkind) list"
  rows :: "row list"

datatype error =
    TypeError string
  | ValueError string
  | AssertionError string
  | KeyError string
  | OSError string
  | ZeroDivisionError
  | NotImplementedError
  | ConstraintsNotMetError string
  | InsufficientRows bool "string list"
  | ExternalError string

text \<open>The numeric reading of a cell, Python's \<^verbatim>\<open>==\<close> on scalars and the dtype kind
  that a column takes when a scalar is assigned to it.\<close>

fun num_of :: "pyval \<Rightarrow> rat option" where
  "num_of (IntV i) = Some (of_int i)"
| "num_of (FloatV x) = Some x"
| "num_of (StrV s) = None"

definition py_eq :: "pyval \<Rightarrow> pyval \<Rightarrow> bool" where
  "py_eq a b =
     (case (num_of a, num_of b) of
        (Some x, Some y) \<Rightarrow> x = y
      | (None, None) \<Rightarrow> a = b
      | _ \<Rightarrow> False)"

fun kind_of :: "pyval \<Rightarrow> dkind" where
  "kind_of (IntV i) = KindI"
| "kind_of (FloatV x) = KindF"
| "kind_of (StrV s) = KindO"

definition empty_frame :: frame where
  "empty_frame = \<lparr>dtypes = [], rows = []\<rparr>"

definition len :: "frame \<Rightarrow> nat" where
  "len df = length (rows df)"

definition columns :: "frame \<Rightarrow> string list" where
  "columns df = map fst (dtypes df)"

text \<open>\<^verbatim>\<open>df.head(n)\<close> and \<^verbatim>\<open>df.tail(n)\<close> for a Python integer \<open>n\<close>: a negative \<open>n\<close>
  counts from the other end.\<close>

definition head :: "int \<Rightarrow> frame \<Rightarrow> frame" where
  "head n df =
     df\<lparr>rows := (if 0 \<le> n then take (nat n) (rows df)
                  else take (length (rows df) - nat (- n)) (rows df))\<rparr>"

definition tail :: "int \<Rightarrow> frame \<Rightarrow> frame" where
  "tail n df =
     df\<lparr>rows := (if 0 \<le> n then drop (length (rows df) - nat n) (rows df)
                  else drop (nat (- n)) (rows df))\<rparr>"

text \<open>Joining the dtype kinds of two frames, as \<^verbatim>\<open>pd.concat\<close> does column by column:
  equal kinds stay, two numeric kinds widen to float, anything else becomes object.\<close>

fun join_kind :: "dkind \<Rightarrow> dkind \<Rightarrow> dkind" where
  "join_kind KindF KindF = KindF"
| "join_kind KindI KindI = KindI"
| "join_kind KindF KindI = KindF"
| "join_kind KindI KindF = KindF"
| "join_kind a b = KindO"

fun join_dtypes :: "(string \<times> dkind) list \<Rightarrow> (string \<times> dkind) list \<Rightarrow> (string \<times> dkind) list" where
  "join_dtypes ds [] = ds"
| "join_dtypes ds ((c, k) # es) =
     join_dtypes
       (case map_of ds c of
          None \<Rightarrow> ds @ [(c, k)]
        | Some k' \<Rightarrow> AList.update c (join_kind k' k) ds) es"

definition concat2 :: "frame \<Rightarrow> frame \<Rightarrow> frame" where
  "concat2 a b =
     \<lparr>dtypes = (if dtypes a = [] then dtypes b else join_dtypes (dtypes a) (dtypes b)),
      rows = rows a @ rows b\<rparr>"

definition concat_frames :: "frame list \<Rightarrow> frame" where
  "concat_frames dfs = foldl concat2 empty_frame dfs"

section \<open>Filtering sampled rows against the conditions\<close>

text \<open>
  \<^verbatim>\<open>_filter_conditions\<close> walks over the items of the condition dictionary. On a float
  column it keeps the rows within the relative tolerance and then assigns the requested
  scalar to the whole column; on any other column it keeps the rows equal to the scalar.
  \<^verbatim>\<open>sampled[column]\<close> raises \<^verbatim>\<open>KeyError\<close> on an unknown column, and
  \<^verbatim>\<open>value * float_rtol\<close> raises \<^verbatim>\<open>TypeError\<close> on a string.
\<close>

definition close_to :: "rat \<Rightarrow> rat \<Rightarrow> string \<Rightarrow> row \<Rightarrow> bool" where
  "close_to v distance column r =
     (case map_of r column of
        None \<Rightarrow> False
      | Some x \<Rightarrow> (case num_of x of None \<Rightarrow> False | Some y \<Rightarrow> \<bar>y - v\<bar> \<le> distance))"

definition equal_to :: "pyval \<Rightarrow> string \<Rightarrow> row \<Rightarrow> bool" where
  "equal_to v column r =
     (case map_of r column of None \<Rightarrow> False | Some x \<Rightarrow> py_eq x v)"

definition filter_condition :: "rat \<Rightarrow> frame \<Rightarrow> string \<times> pyval \<Rightarrow> error + frame" where
  "filter_condition float_rtol sampled cv =
     (case cv of (column, v) \<Rightarrow>
        (case map_of (dtypes sampled) column of
           None \<Rightarrow> Inl (KeyError column)
         | Some kind \<Rightarrow>
             if kind = KindF then
               (case num_of v of
                  None \<Rightarrow> Inl (TypeError ''cannot multiply a str by a float'')
                | Some w \<Rightarrow>
                    let distance = w * float_rtol in
                    Inr \<lparr>dtypes = AList.update column (kind_of v) (dtypes sampled),
                         rows = map (AList.update column v)
                                  (filter (close_to w distance column) (rows sampled))\<rparr>)
             else Inr (sampled\<lparr>rows := filter (equal_to v column) (rows sampled)\<rparr>)))"

fun filter_conditions :: "frame \<Rightarrow> (string \<times> pyval) list \<Rightarrow> rat \<Rightarrow> error + frame" where
  "filter_conditions sampled [] float_rtol = Inr sampled"
| "filter_conditions sampled (cv # conditions) float_rtol =
     (case filter_condition float_rtol sampled cv of
        Inl e \<Rightarrow> Inl e
      | Inr sampled' \<Rightarrow> filter_conditions sampled' conditions float_rtol)"






section \<open>The fitted model, its collaborators and the world\<close>

text \<open>
  The row generator \<^verbatim>\<open>self._sample\<close>, the metadata's \<^verbatim>\<open>reverse_transform\<close>,
  \<^verbatim>\<open>filter_valid\<close>, \<^verbatim>\<open>transform\<close> and \<^verbatim>\<open>make_ids_unique\<close>, and
  \<^verbatim>\<open>os.path.abspath\<close> are collaborators of the engine: they are parameters of the model.
  The generator threads a state of its own and may raise; \<^verbatim>\<open>transform\<close> is applied to
  the single condition row it is given and may raise \<^verbatim>\<open>ConstraintsNotMetError\<close>.
  The world is the generator state, a count of the generator calls made so far, and the
  file system, a map from the path handed to \<^verbatim>\<open>os\<close> to the lines of the file.
  The progress bar and the logger only display and are left out. Row counts
  (\<^verbatim>\<open>num_rows\<close>, \<^verbatim>\<open>batch_size\<close>) are natural numbers.
\<close>

datatype model_kind = ModelNone | GaussianMultivariate | OtherModel

datatype csv_line = Header "string list" | Data row

type_synonym ticket = "int option"

type_synonym indexed = "(ticket \<times> row) list"

record 'g env =
  has_data_columns :: bool
  model_sample :: "'g \<Rightarrow> int \<Rightarrow> row option \<Rightarrow> (error + frame) \<times> 'g"
  set_random_state :: "int option \<Rightarrow> 'g \<Rightarrow> 'g"
  model_kind :: model_kind
  reverse_transform :: "frame \<Rightarrow> frame"
  filter_valid :: "frame \<Rightarrow> frame"
  transform :: "row \<Rightarrow> error + row"
  make_ids_unique :: "indexed \<Rightarrow> indexed"
  metadata_fields :: "string list"
  abspath :: "string \<Rightarrow> string"

record 'g world =
  gstate :: 'g
  gen_calls :: nat
  fs :: "string \<rightharpoonup> csv_line list"

definition FIXED_RNG_SEED :: int where
  "FIXED_RNG_SEED = 73251"

definition TMP_FILE_NAME :: string where
  "TMP_FILE_NAME = ''.sample.csv.temp''"

definition DISABLE_TMP_FILE :: string where
  "DISABLE_TMP_FILE = ''disable''"

definition call_sample :: "'g env \<Rightarrow> int \<Rightarrow> row option \<Rightarrow> 'g world \<Rightarrow> (error + frame) \<times> 'g world" where
  "call_sample env n tc w =
     (case model_sample env (gstate w) n tc of
        (res, g) \<Rightarrow> (res, w\<lparr>gstate := g, gen_calls := Suc (gen_calls w)\<rparr>))"

text \<open>\<^verbatim>\<open>pd.DataFrame(index=range(n))\<close>: \<open>n\<close> rows and no column.\<close>

definition index_frame :: "int \<Rightarrow> frame" where
  "index_frame n = \<lparr>dtypes = [], rows = replicate (nat n) []\<rparr>"

definition sample_rows ::
  "'g env \<Rightarrow> int \<Rightarrow> row option \<Rightarrow> row option \<Rightarrow> rat \<Rightarrow> frame option \<Rightarrow> 'g world
     \<Rightarrow> (error + frame \<times> int) \<times> 'g world" where
  "sample_rows env n conds tconds float_rtol previous_rows w =
     (if has_data_columns env then
        (case (case conds of
                 None \<Rightarrow> call_sample env n None w
               | Some c \<Rightarrow>
                   (case call_sample env n tconds w of
                      (res, w') \<Rightarrow>
                        if res = Inl NotImplementedError then call_sample env n None w'
                        else (res, w'))) of
           (Inl e, w1) \<Rightarrow> (Inl e, w1)
         | (Inr generated, w1) \<Rightarrow>
             let reversed = reverse_transform env generated;
                 joined = (case previous_rows of None \<Rightarrow> reversed | Some p \<Rightarrow> concat2 p reversed);
                 valid = filter_valid env joined
             in (case conds of
                   None \<Rightarrow> (Inr (valid, int (len valid)), w1)
                 | Some c \<Rightarrow>
                     (case filter_conditions valid c float_rtol of
                        Inl e \<Rightarrow> (Inl e, w1)
                      | Inr matched \<Rightarrow> (Inr (matched, int (len matched)), w1))))
      else (Inr (reverse_transform env (index_frame n), n), w))"

section \<open>The batch acceptance loop\<close>

text \<open>Python's \<^verbatim>\<open>int(x)\<close> on a float truncates towards zero.\<close>

definition py_int :: "rat \<Rightarrow> int" where
  "py_int x = (if 0 \<le> x then \<lfloor>x\<rfloor> else \<lceil>x\<rceil>)"

definition valid_rate :: "int \<Rightarrow> int \<Rightarrow> rat" where
  "valid_rate num_new_valid_rows requested =
     of_int (max num_new_valid_rows 1) / of_int (max requested 1)"

definition resize :: "nat \<Rightarrow> int \<Rightarrow> int \<Rightarrow> int \<Rightarrow> int" where
  "resize batch_size still_missing num_new_valid_rows requested =
     min (10 * int batch_size)
       (py_int (of_int still_missing / valid_rate num_new_valid_rows requested))"


record loop_state =
  counter :: int
  num_valid :: int
  remaining :: int
  num_rows_to_sample :: int
  sampled :: frame

text \<open>Appending the newly accepted rows to the output file: \<^verbatim>\<open>os.path.getsize\<close>
  raises on a missing file; an empty file gets the header first.\<close>

definition write_increment ::
  "string option \<Rightarrow> frame \<Rightarrow> nat \<Rightarrow> int \<Rightarrow> 'g world \<Rightarrow> (error + unit) \<times> 'g world" where
  "write_increment output_file_path df batch_size num_increase w =
     (case output_file_path of
        None \<Rightarrow> (Inr (), w)
      | Some p \<Rightarrow>
          if p = [] then (Inr (), w)
          else (case fs w p of
                  None \<Rightarrow> (Inl (OSError p), w)
                | Some content \<Rightarrow>
                    let chunk = rows (tail num_increase
                                  (head (min (int (len df)) (int batch_size)) df))
                    in (Inr (), w\<lparr>fs := (fs w)(p \<mapsto>
                          (if content \<noteq> [] then content @ map Data chunk
                           else Header (columns df) # map Data chunk))\<rparr>)))"

definition batch_round ::
  "'g env \<Rightarrow> nat \<Rightarrow> row option \<Rightarrow> row option \<Rightarrow> rat \<Rightarrow> string option
     \<Rightarrow> loop_state \<Rightarrow> 'g world \<Rightarrow> (error + loop_state) \<times> 'g world" where
  "batch_round env batch_size conds tconds float_rtol output_file_path st w =
     (let prev_num_valid = num_valid st in
      case sample_rows env (num_rows_to_sample st) conds tconds float_rtol (Some (sampled st)) w of
        (Inl e, w1) \<Rightarrow> (Inl e, w1)
      | (Inr (df, nv), w1) \<Rightarrow>
          let num_new_valid_rows = nv - prev_num_valid;
              num_increase = min num_new_valid_rows (remaining st)
          in (case (if 0 < num_increase
                    then write_increment output_file_path df batch_size num_increase w1
                    else (Inr (), w1)) of
                (Inl e, w2) \<Rightarrow> (Inl e, w2)
              | (Inr u, w2) \<Rightarrow>
                  (Inr \<lparr>counter = counter st + 1,
                        num_valid = nv,
                        remaining = int batch_size - nv,
                        num_rows_to_sample =
                          resize batch_size (int batch_size - nv) num_new_valid_rows
                            (num_rows_to_sample st),
                        sampled = df\<rparr>, w2)))"

function batch_loop ::
  "'g env \<Rightarrow> nat \<Rightarrow> int \<Rightarrow> row option \<Rightarrow> row option \<Rightarrow> rat \<Rightarrow> string option
     \<Rightarrow> loop_state \<Rightarrow> 'g world \<Rightarrow> (error + loop_state) \<times> 'g world" where
  "batch_loop env batch_size max_tries conds tconds float_rtol output_file_path st w =
     (if num_valid st < int batch_size \<and> \<not> max_tries \<le> counter st then
        (case batch_round env batch_size conds tconds float_rtol output_file_path st w of
           (Inl e, w1) \<Rightarrow> (Inl e, w1)
         | (Inr st1, w1) \<Rightarrow>
             batch_loop env batch_size max_tries conds tconds float_rtol output_file_path st1 w1)
      else (Inr st, w))"
  by pat_completeness auto
termination
  apply (relation "measure (\<lambda>(env, batch_size, max_tries, conds, tconds, float_rtol,
                            output_file_path, st, w). nat (max_tries - counter st))")
   apply simp
  apply (auto simp: batch_round_def Let_def split: prod.splits sum.splits if_splits)
  done

definition initial_state :: "nat \<Rightarrow> loop_state" where
  "initial_state batch_size =
     \<lparr>counter = 0, num_valid = 0, remaining = int batch_size,
      num_rows_to_sample = int batch_size, sampled = empty_frame\<rparr>"

definition sample_batch ::
  "'g env \<Rightarrow> nat \<Rightarrow> int \<Rightarrow> row option \<Rightarrow> row option \<Rightarrow> rat \<Rightarrow> string option
     \<Rightarrow> 'g world \<Rightarrow> (error + frame) \<times> 'g world" where
  "sample_batch env batch_size max_tries conds tconds float_rtol output_file_path w =
     (case batch_loop env batch_size max_tries conds tconds float_rtol output_file_path
             (initial_state batch_size) w of
        (Inl e, w1) \<Rightarrow> (Inl e, w1)
      | (Inr st, w1) \<Rightarrow>
          (Inr (head (min (int (len (sampled st))) (int batch_size)) (sampled st)), w1))"

fun run_batches ::
  "'g env \<Rightarrow> nat \<Rightarrow> nat \<Rightarrow> int \<Rightarrow> row option \<Rightarrow> row option \<Rightarrow> rat \<Rightarrow> string option
     \<Rightarrow> 'g world \<Rightarrow> (error + frame list) \<times> 'g world" where
  "run_batches env 0 batch_size max_tries conds tconds float_rtol output_file_path w =
     (Inr [], w)"
| "run_batches env (Suc steps) batch_size max_tries conds tconds float_rtol output_file_path w =
     (case sample_batch env batch_size max_tries conds tconds float_rtol output_file_path w of
        (Inl e, w1) \<Rightarrow> (Inl e, w1)
      | (Inr df, w1) \<Rightarrow>
          (case run_batches env steps batch_size max_tries conds tconds float_rtol
                  output_file_path w1 of
             (Inl e, w2) \<Rightarrow> (Inl e, w2)
           | (Inr dfs, w2) \<Rightarrow> (Inr (df # dfs), w2)))"

text \<open>\<^verbatim>\<open>math.ceil(num_rows / batch_size)\<close> divides by zero when both counts are zero
  or the batch size is zero.\<close>

definition sample_in_batches ::
  "'g env \<Rightarrow> nat \<Rightarrow> nat \<Rightarrow> int \<Rightarrow> row option \<Rightarrow> row option \<Rightarrow> rat \<Rightarrow> string option
     \<Rightarrow> 'g world \<Rightarrow> (error + frame) \<times> 'g world" where
  "sample_in_batches env n batch_size max_tries_per_batch conds tconds float_rtol
       output_file_path w =
     (let b = (if batch_size < n then batch_size else n) in
      if b = 0 then (Inl ZeroDivisionError, w)
      else (case run_batches env ((n + b - 1) div b) b max_tries_per_batch conds tconds
                   float_rtol output_file_path w of
              (Inl e, w1) \<Rightarrow> (Inl e, w1)
            | (Inr dfs, w1) \<Rightarrow>
                (Inr (head (int n) (if dfs \<noteq> [] then concat_frames dfs else empty_frame)),
                 w1)))"

section \<open>Sampling for one partition\<close>

text \<open>
  \<^verbatim>\<open>_conditionally_sample_rows\<close> reads of its \<^verbatim>\<open>dataframe\<close> argument only the length
  and the values of the ticket column \<^verbatim>\<open>COND_IDX\<close>, so the argument is the list of
  tickets. A ticket lost by index alignment is \<open>None\<close> (pandas stores NaN). The sampled
  rows are returned with their tickets beside them. The error message is kept without
  the interpolated numbers.
\<close>

definition conditionally_sample_rows ::
  "'g env \<Rightarrow> ticket list \<Rightarrow> row \<Rightarrow> row option \<Rightarrow> int \<Rightarrow> nat option \<Rightarrow> rat \<Rightarrow> bool
     \<Rightarrow> string option \<Rightarrow> 'g world \<Rightarrow> (error + indexed) \<times> 'g world" where
  "conditionally_sample_rows env tickets condition transformed_condition max_tries_per_batch
       batch_size float_rtol graceful_reject_sampling output_file_path w =
     (let b = (case batch_size of
                 None \<Rightarrow> length tickets
               | Some k \<Rightarrow> if k = 0 then length tickets else k) in
      case sample_in_batches env (length tickets) b max_tries_per_batch (Some condition)
             transformed_condition float_rtol output_file_path w of
        (Inl e, w1) \<Rightarrow> (Inl e, w1)
      | (Inr sampled_rows, w1) \<Rightarrow>
          if 0 < len sampled_rows
          then (Inr (zip (take (len sampled_rows) tickets) (rows sampled_rows)), w1)
          else if \<not> graceful_reject_sampling
          then (Inl (ValueError
                  (''Unable to sample any rows for the given conditions. '' @
                   (if model_kind env = GaussianMultivariate
                    then ''This may be because the provided values are out-of-bounds in the current model.''
                    else ''Try increasing max_tries_per_batch or increasing batch_size.''))), w1)
          else (Inr [], w1))"

section \<open>The output file\<close>

definition validate_file_path ::
  "'g env \<Rightarrow> string option \<Rightarrow> 'g world \<Rightarrow> (error + string option) \<times> 'g world" where
  "validate_file_path env output_file_path w =
     (if output_file_path = Some DISABLE_TMP_FILE then (Inr None, w)
      else if output_file_path \<noteq> None \<and> output_file_path \<noteq> Some [] then
        (let output_path = abspath env (case output_file_path of Some p \<Rightarrow> p | None \<Rightarrow> []) in
         if fs w output_path \<noteq> None
         then (Inl (AssertionError (output_path @ '' already exists.'')), w)
         else (Inr (Some output_path), w\<lparr>fs := (fs w)(output_path \<mapsto> [])\<rparr>))
      else
        (let w1 = (if fs w TMP_FILE_NAME \<noteq> None
                   then w\<lparr>fs := (fs w)(TMP_FILE_NAME := None)\<rparr> else w)
         in (Inr (Some TMP_FILE_NAME), w1\<lparr>fs := (fs w1)(TMP_FILE_NAME \<mapsto> [])\<rparr>)))"

definition randomize_samples :: "'g env \<Rightarrow> bool \<Rightarrow> 'g world \<Rightarrow> 'g world" where
  "randomize_samples env randomize w =
     (if model_kind env = ModelNone then w
      else if randomize then w\<lparr>gstate := set_random_state env None (gstate w)\<rparr>
      else w\<lparr>gstate := set_random_state env (Some FIXED_RNG_SEED) (gstate w)\<rparr>)"

text \<open>Removing the temporary file after a clean run.\<close>

definition remove_tmp_file :: "string option \<Rightarrow> 'g world \<Rightarrow> 'g world" where
  "remove_tmp_file output_file_path w =
     (if output_file_path = Some TMP_FILE_NAME \<and> fs w TMP_FILE_NAME \<noteq> None
      then w\<lparr>fs := (fs w)(TMP_FILE_NAME := None)\<rparr> else w)"

text \<open>
  Modelled from the spec: \<^verbatim>\<open>handle_sampling_error\<close> of \<^verbatim>\<open>sdv.tabular.utils\<close> is not
  among the sources. The specification says that a failure during sampling is
  propagated, not swallowed, and that the file written so far is left in place.
\<close>

definition handle_sampling_error ::
  "bool \<Rightarrow> string option \<Rightarrow> error \<Rightarrow> 'g world \<Rightarrow> (error + 'a) \<times> 'g world" where
  "handle_sampling_error is_tmp_file output_file_path sampling_error w =
     (Inl sampling_error, w)"

text \<open>
  Modelled from the spec: \<^verbatim>\<open>check_num_rows\<close> of \<^verbatim>\<open>sdv.tabular.utils\<close> is not among
  the sources. The specification says that strict mode raises when the rows accepted
  across all partitions are fewer than requested, that the error tells whether the
  shortfall comes from the reject-sampling limits or from an infeasible conditioning
  request, and that it names the two levers \<^verbatim>\<open>max_tries_per_batch\<close> and
  \<^verbatim>\<open>batch_size\<close>. The error \<open>InsufficientRows\<close> carries that flag and the names.
\<close>

definition check_num_rows :: "nat \<Rightarrow> nat \<Rightarrow> bool \<Rightarrow> int \<Rightarrow> error + unit" where
  "check_num_rows n expected_num_rows is_reject_sampling max_tries_per_batch =
     (if n < expected_num_rows
      then Inl (InsufficientRows is_reject_sampling [''max_tries_per_batch'', ''batch_size''])
      else Inr ())"

section \<open>Unconditioned sampling\<close>

definition sample_with_progress_bar ::
  "'g env \<Rightarrow> nat option \<Rightarrow> bool \<Rightarrow> int \<Rightarrow> nat option \<Rightarrow> string option \<Rightarrow> row option
     \<Rightarrow> 'g world \<Rightarrow> (error + frame) \<times> 'g world" where
  "sample_with_progress_bar env num_rows randomize max_tries_per_batch batch_size
       output_file_path conds w =
     (if conds \<noteq> None
      then (Inl (TypeError ''This method does not support the conditions parameter.''), w)
      else (case num_rows of
              None \<Rightarrow> (Inl (ValueError ''You must specify the number of rows to sample.''), w)
            | Some n \<Rightarrow>
                if n = 0 then (Inr empty_frame, w)
                else
                  (case validate_file_path env output_file_path
                          (randomize_samples env randomize w) of
                     (Inl e, w1) \<Rightarrow> (Inl e, w1)
                   | (Inr path, w1) \<Rightarrow>
                       let b = (case batch_size of
                                  None \<Rightarrow> n
                                | Some k \<Rightarrow> if k = 0 then n else min k n) in
                       (case sample_in_batches env n b max_tries_per_batch None None (1 / 100)
                               path w1 of
                          (Inl e, w2) \<Rightarrow>
                            handle_sampling_error (path = Some TMP_FILE_NAME) path e w2
                        | (Inr df, w2) \<Rightarrow> (Inr df, remove_tmp_file path w2)))))"

text \<open>\<^verbatim>\<open>sample\<close> only decides whether the progress bar is shown.\<close>

definition sample ::
  "'g env \<Rightarrow> nat option \<Rightarrow> bool \<Rightarrow> int \<Rightarrow> nat option \<Rightarrow> string option \<Rightarrow> row option
     \<Rightarrow> 'g world \<Rightarrow> (error + frame) \<times> 'g world" where
  "sample env num_rows randomize max_tries_per_batch batch_size output_file_path conds w =
     sample_with_progress_bar env num_rows randomize max_tries_per_batch batch_size
       output_file_path conds w"

section \<open>Partitioning the conditions\<close>

text \<open>
  A condition is a dictionary of column values, in insertion order, and a row count.
  \<^verbatim>\<open>_make_condition_dfs\<close> files each condition under the tuple of its column names and
  concatenates the frames of each tuple, in the order in which the tuples first appear.
\<close>

datatype Condition = Condition (get_column_values: row) (get_num_rows: nat)

definition condition_frame :: "Condition \<Rightarrow> frame" where
  "condition_frame c =
     \<lparr>dtypes = map (\<lambda>(k, v). (k, kind_of v)) (get_column_values c),
      rows = replicate (get_num_rows c) (get_column_values c)\<rparr>"

fun append_to :: "'k \<Rightarrow> 'v \<Rightarrow> ('k \<times> 'v list) list \<Rightarrow> ('k \<times> 'v list) list" where
  "append_to k v [] = [(k, [v])]"
| "append_to k v ((k', vs) # rest) =
     (if k = k' then (k', vs @ [v]) # rest else (k', vs) # append_to k v rest)"

definition condition_dataframes :: "Condition list \<Rightarrow> (string list \<times> frame list) list" where
  "condition_dataframes cs =
     foldl (\<lambda>d c. append_to (map fst (get_column_values c)) (condition_frame c) d) [] cs"

definition make_condition_dfs :: "Condition list \<Rightarrow> frame list" where
  "make_condition_dfs cs = map (\<lambda>(k, dfs). concat_frames dfs) (condition_dataframes cs)"

fun validate_conditions :: "'g env \<Rightarrow> string list \<Rightarrow> error + unit" where
  "validate_conditions env [] = Inr ()"
| "validate_conditions env (c # cs) =
     (if c \<notin> set (metadata_fields env)
      then Inl (ValueError (''Unexpected column name '' @ c))
      else validate_conditions env cs)"

text \<open>
  \<^verbatim>\<open>groupby\<close> on a list of columns. A member is a row with its index label and its
  ticket. pandas refuses an empty list of keys on a frame with rows, puts the groups in
  the order of their keys, and keeps the rows of a group in frame order. Numbers are
  ordered by value and strings by code point; a number is put before a string.
\<close>

type_synonym member = "nat \<times> ticket \<times> row"

definition key_of :: "string list \<Rightarrow> row \<Rightarrow> pyval list option" where
  "key_of cols r = those (map (map_of r) cols)"

definition key_eq :: "pyval list \<Rightarrow> pyval list \<Rightarrow> bool" where
  "key_eq a b = list_all2 py_eq a b"

fun str_less :: "nat list \<Rightarrow> nat list \<Rightarrow> bool" where
  "str_less [] [] = False"
| "str_less [] (b # bs) = True"
| "str_less (a # as) [] = False"
| "str_less (a # as) (b # bs) = (a < b \<or> (a = b \<and> str_less as bs))"

fun val_less :: "pyval \<Rightarrow> pyval \<Rightarrow> bool" where
  "val_less (StrV s) (StrV t) = str_less (map of_char s) (map of_char t)"
| "val_less (StrV s) b = False"
| "val_less a (StrV t) = True"
| "val_less a b = (case (num_of a, num_of b) of (Some x, Some y) \<Rightarrow> x < y | _ \<Rightarrow> False)"

fun key_less :: "pyval list \<Rightarrow> pyval list \<Rightarrow> bool" where
  "key_less [] [] = False"
| "key_less [] (b # bs) = True"
| "key_less (a # as) [] = False"
| "key_less (a # as) (b # bs) = (val_less a b \<or> (py_eq a b \<and> key_less as bs))"

fun insert_key :: "pyval list \<Rightarrow> pyval list list \<Rightarrow> pyval list list" where
  "insert_key k [] = [k]"
| "insert_key k (x # xs) = (if key_less k x then k # x # xs else x # insert_key k xs)"

definition sort_keys :: "pyval list list \<Rightarrow> pyval list list" where
  "sort_keys ks = foldr insert_key ks []"

fun distinct_keys :: "pyval list list \<Rightarrow> pyval list list" where
  "distinct_keys [] = []"
| "distinct_keys (k # ks) = k # distinct_keys (filter (\<lambda>k'. \<not> key_eq k k') ks)"

definition groupby :: "string list \<Rightarrow> member list \<Rightarrow> error + (pyval list \<times> member list) list" where
  "groupby cols members =
     (if cols = [] then
        (if members = [] then Inr [] else Inl (ValueError ''No group keys passed!''))
      else
        (let keyed = List.map_filter
                       (\<lambda>m. map_option (\<lambda>k. (k, m)) (key_of cols (snd (snd m)))) members;
             keys = sort_keys (distinct_keys (map fst keyed))
         in Inr (map (\<lambda>k. (k, map snd (filter (\<lambda>km. key_eq (fst km) k) keyed))) keys)))"

text \<open>\<^verbatim>\<open>conditions.reset_index\<close>: the old index, a range, becomes the ticket column and
  the rows are labelled by position.\<close>

definition reset_index :: "frame \<Rightarrow> member list" where
  "reset_index df = map (\<lambda>(i, r). (i, Some (int i), r)) (zip [0..<length (rows df)] (rows df))"

text \<open>
  \<^verbatim>\<open>transformed_conditions[COND_IDX] = dataframe[COND_IDX]\<close> assigns a series to a frame
  whose index is \<open>0..k-1\<close>: pandas aligns on the index labels, so row \<open>j\<close> receives the
  ticket of the member labelled \<open>j\<close>, and no ticket when the group has no such member.
\<close>

definition aligned_ticket :: "member list \<Rightarrow> nat \<Rightarrow> ticket" where
  "aligned_ticket members j =
     (case find (\<lambda>m. fst m = j) members of None \<Rightarrow> None | Some m \<Rightarrow> fst (snd m))"

definition transformed_members :: "row \<Rightarrow> member list \<Rightarrow> member list" where
  "transformed_members trow members =
     map (\<lambda>j. (j, aligned_ticket members j, trow)) [0..<length members]"

fun sample_transformed_groups ::
  "'g env \<Rightarrow> row \<Rightarrow> string list \<Rightarrow> (pyval list \<times> member list) list \<Rightarrow> int \<Rightarrow> nat option
     \<Rightarrow> string option \<Rightarrow> 'g world \<Rightarrow> (error + indexed list) \<times> 'g world" where
  "sample_transformed_groups env condition tcols [] max_tries_per_batch batch_size
       output_file_path w = (Inr [], w)"
| "sample_transformed_groups env condition tcols ((tkey, tmembers) # groups)
       max_tries_per_batch batch_size output_file_path w =
     (case conditionally_sample_rows env (map (\<lambda>m. fst (snd m)) tmembers) condition
             (Some (zip tcols tkey)) max_tries_per_batch batch_size (1 / 100) True
             output_file_path w of
        (Inl e, w1) \<Rightarrow> (Inl e, w1)
      | (Inr part, w1) \<Rightarrow>
          (case sample_transformed_groups env condition tcols groups max_tries_per_batch
                  batch_size output_file_path w1 of
             (Inl e, w2) \<Rightarrow> (Inl e, w2)
           | (Inr parts, w2) \<Rightarrow> (Inr (part # parts), w2)))"

definition sample_raw_group ::
  "'g env \<Rightarrow> string list \<Rightarrow> pyval list \<times> member list \<Rightarrow> int \<Rightarrow> nat option
     \<Rightarrow> string option \<Rightarrow> 'g world \<Rightarrow> (error + indexed list) \<times> 'g world" where
  "sample_raw_group env condition_columns g max_tries_per_batch batch_size output_file_path w =
     (case g of (key, members) \<Rightarrow>
        let condition = zip condition_columns key in
        (case transform env (case members of [] \<Rightarrow> [] | m # ms \<Rightarrow> snd (snd m)) of
           Inl e \<Rightarrow>
             (Inl (case e of
                     ConstraintsNotMetError msg \<Rightarrow> ConstraintsNotMetError
                       ''Provided conditions are not valid for the given constraints''
                   | other \<Rightarrow> other), w)
         | Inr trow \<Rightarrow>
             let transformed_columns = map fst trow in
             if length transformed_columns = 0 then
               (case conditionally_sample_rows env (map (\<lambda>m. fst (snd m)) members) condition
                       None max_tries_per_batch batch_size (1 / 100) True output_file_path w of
                  (Inl e, w1) \<Rightarrow> (Inl e, w1)
                | (Inr part, w1) \<Rightarrow> (Inr [part], w1))
             else
               (case groupby transformed_columns (transformed_members trow members) of
                  Inl e \<Rightarrow> (Inl e, w)
                | Inr tgroups \<Rightarrow>
                    sample_transformed_groups env condition transformed_columns tgroups
                      max_tries_per_batch batch_size output_file_path w)))"

fun sample_raw_groups ::
  "'g env \<Rightarrow> string list \<Rightarrow> (pyval list \<times> member list) list \<Rightarrow> int \<Rightarrow> nat option
     \<Rightarrow> string option \<Rightarrow> 'g world \<Rightarrow> (error + indexed list) \<times> 'g world" where
  "sample_raw_groups env condition_columns [] max_tries_per_batch batch_size
       output_file_path w = (Inr [], w)"
| "sample_raw_groups env condition_columns (g # groups) max_tries_per_batch batch_size
       output_file_path w =
     (case sample_raw_group env condition_columns g max_tries_per_batch batch_size
             output_file_path w of
        (Inl e, w1) \<Rightarrow> (Inl e, w1)
      | (Inr parts, w1) \<Rightarrow>
          (case sample_raw_groups env condition_columns groups max_tries_per_batch batch_size
                  output_file_path w1 of
             (Inl e, w2) \<Rightarrow> (Inl e, w2)
           | (Inr others, w2) \<Rightarrow> (Inr (parts @ others), w2)))"

text \<open>
  \<^verbatim>\<open>sort_index\<close>: the rows with a ticket in ticket order, then the rows without one in
  the order they have. \<^verbatim>\<open>pd.concat\<close> refuses an empty list of frames, which is what a
  conditions frame without rows leads to.
\<close>

definition ticket_value :: "ticket \<times> row \<Rightarrow> int" where
  "ticket_value tr = (case fst tr of Some i \<Rightarrow> i | None \<Rightarrow> 0)"

definition sort_index :: "indexed \<Rightarrow> indexed" where
  "sort_index xs =
     sort_key ticket_value (filter (\<lambda>tr. fst tr \<noteq> None) xs) @ filter (\<lambda>tr. fst tr = None) xs"

definition reassemble :: "'g env \<Rightarrow> indexed list \<Rightarrow> indexed" where
  "reassemble env parts =
     (let all_sampled_rows = concat parts in
      if length all_sampled_rows = 0 then all_sampled_rows
      else make_ids_unique env (sort_index all_sampled_rows))"

definition sample_with_conditions ::
  "'g env \<Rightarrow> frame \<Rightarrow> int \<Rightarrow> nat option \<Rightarrow> string option \<Rightarrow> 'g world
     \<Rightarrow> (error + indexed) \<times> 'g world" where
  "sample_with_conditions env conds max_tries_per_batch batch_size output_file_path w =
     (let condition_columns = columns conds in
      case groupby condition_columns (reset_index conds) of
        Inl e \<Rightarrow> (Inl e, w)
      | Inr grouped_conditions \<Rightarrow>
          (case sample_raw_groups env condition_columns grouped_conditions max_tries_per_batch
                  batch_size output_file_path w of
             (Inl e, w1) \<Rightarrow> (Inl e, w1)
           | (Inr parts, w1) \<Rightarrow>
               if parts = [] then (Inl (ValueError ''No objects to concatenate''), w1)
               else (Inr (reassemble env parts), w1)))"

section \<open>Conditioned sampling\<close>

fun validate_all :: "'g env \<Rightarrow> frame list \<Rightarrow> error + unit" where
  "validate_all env [] = Inr ()"
| "validate_all env (df # dfs) =
     (case validate_conditions env (columns df) of
        Inl e \<Rightarrow> Inl e
      | Inr u \<Rightarrow> validate_all env dfs)"

text \<open>The loop over the condition frames; the index is dropped when the results are
  concatenated, so the rows are returned without their tickets.\<close>

fun sample_condition_frames ::
  "'g env \<Rightarrow> frame list \<Rightarrow> int \<Rightarrow> nat option \<Rightarrow> string option \<Rightarrow> row list \<Rightarrow> 'g world
     \<Rightarrow> (error + row list) \<times> 'g world" where
  "sample_condition_frames env [] max_tries_per_batch batch_size output_file_path acc w =
     (Inr acc, w)"
| "sample_condition_frames env (df # dfs) max_tries_per_batch batch_size output_file_path acc w =
     (case sample_with_conditions env df max_tries_per_batch batch_size output_file_path w of
        (Inl e, w1) \<Rightarrow> (Inl e, w1)
      | (Inr sampled_for_condition, w1) \<Rightarrow>
          sample_condition_frames env dfs max_tries_per_batch batch_size output_file_path
            (acc @ map snd sampled_for_condition) w1)"

definition sample_conditions ::
  "'g env \<Rightarrow> Condition list \<Rightarrow> int \<Rightarrow> nat option \<Rightarrow> bool \<Rightarrow> string option \<Rightarrow> 'g world
     \<Rightarrow> (error + row list) \<times> 'g world" where
  "sample_conditions env cs max_tries_per_batch batch_size randomize output_file_path w =
     (case validate_file_path env output_file_path w of
        (Inl e, w1) \<Rightarrow> (Inl e, w1)
      | (Inr path, w1) \<Rightarrow>
          let n = foldl (\<lambda>acc c. get_num_rows c + acc) 0 cs;
              dfs = make_condition_dfs cs
          in (case validate_all env dfs of
                Inl e \<Rightarrow> (Inl e, w1)
              | Inr u \<Rightarrow>
                  (case sample_condition_frames env dfs max_tries_per_batch batch_size path []
                          (randomize_samples env randomize w1) of
                     (Inl e, w2) \<Rightarrow>
                       handle_sampling_error (path = Some TMP_FILE_NAME) path e w2
                   | (Inr rs, w2) \<Rightarrow>
                       (case check_num_rows (length rs) n
                               (model_kind env \<noteq> GaussianMultivariate) max_tries_per_batch of
                          Inl e \<Rightarrow> handle_sampling_error (path = Some TMP_FILE_NAME) path e w2
                        | Inr u \<Rightarrow> (Inr rs, remove_tmp_file path w2)))))"

section \<open>Notions used in the statements\<close>




text \<open>The transformed condition that a raw group is sampled with: none when the
  transform leaves no column, else the columns of the transformed row with the values
  of its group key.\<close>

definition transformed_condition_of :: "row \<Rightarrow> row option" where
  "transformed_condition_of trow =
     (if trow = [] then None
      else map_option (zip (map fst trow)) (key_of (map fst trow) trow))"

section \<open>A small model to run the engine on\<close>

text \<open>
  A concrete generator for the examples: its state counts the rows generated so far,
  every generated row carries the transformed condition it was asked for and a serial
  number in column \<open>x\<close>, and the constraint filter drops the rows whose serial number
  is in a given list. The transform pipeline returns the condition row as it is.
\<close>

definition demo_sample :: "nat \<Rightarrow> int \<Rightarrow> row option \<Rightarrow> (error + frame) \<times> nat" where
  "demo_sample g n tc =
     (let given = (case tc of None \<Rightarrow> [] | Some t \<Rightarrow> t) in
      (Inr \<lparr>dtypes = map (\<lambda>(c, v). (c, kind_of v)) given @ [(''x'', KindI)],
            rows = map (\<lambda>i. given @ [(''x'', IntV (int (g + i)))]) [0..<nat n]\<rparr>,
       g + nat n))"

definition demo_valid :: "int list \<Rightarrow> row \<Rightarrow> bool" where
  "demo_valid bad r = (case map_of r ''x'' of Some (IntV i) \<Rightarrow> i \<notin> set bad | _ \<Rightarrow> True)"

definition demo_env :: "int list \<Rightarrow> nat env" where
  "demo_env bad =
     \<lparr>has_data_columns = True,
      model_sample = demo_sample,
      set_random_state = (\<lambda>seed g. g),
      model_kind = OtherModel,
      reverse_transform = (\<lambda>df. df),
      filter_valid = (\<lambda>df. df\<lparr>rows := filter (demo_valid bad) (rows df)\<rparr>),
      transform = (\<lambda>r. Inr r),
      make_ids_unique = (\<lambda>xs. xs),
      metadata_fields = [''a'', ''b''],
      abspath = (\<lambda>p. p)\<rparr>"

definition demo_world :: "nat world" where
  "demo_world = \<lparr>gstate = 0, gen_calls = 0, fs = Map.empty\<rparr>"



section \<open>Properties of the condition filter\<close>










lemma filter_id: "\<forall>x \<in> set xs. P x \<Longrightarrow> filter P xs = xs"
  by (induction xs) auto



lemma py_eq_refl: "py_eq v v"
  by (cases v) (simp_all add: py_eq_def)








section \<open>Properties of the batch acceptance loop\<close>






lemma len_head_min: "len (head (min (int (len df)) (int b)) df) = min (len df) b"
  by (simp add: len_def head_def min_def)

lemma len_head_nat: "len (head (int n) df) = min n (len df)"
  by (simp add: len_def head_def min_def)

lemma sample_batch_len:
  assumes "fst (sample_batch env b max_tries conds tconds rtol path w) = Inr df"
  shows "len df \<le> b"
  using assms
  by (auto simp: sample_batch_def len_head_min split: prod.splits sum.splits)

lemma sample_in_batches_len:
  assumes "fst (sample_in_batches env n b max_tries conds tconds rtol path w) = Inr df"
  shows "len df \<le> n"
  using assms
  by (auto simp: sample_in_batches_def Let_def len_head_nat split: prod.splits sum.splits if_splits)

text \<open>
  C6, as the code has it. The frame that the loop returns holds at most \<open>target\<close> rows,
  and \<^verbatim>\<open>_sample_in_batches\<close> returns at most \<open>num_rows\<close> rows. (The frame accumulated
  inside the loop is trimmed only on return.)
\<close>

theorem batch_result_within_target:
  "(fst (sample_batch env b max_tries conds tconds rtol path w) = Inr df \<longrightarrow> len df \<le> b)
   \<and> (fst (sample_in_batches env n b max_tries conds tconds rtol path w) = Inr df'
        \<longrightarrow> len df' \<le> n)"
  using sample_batch_len sample_in_batches_len by blast

theorem batch_result_within_target_witness:
  "fst (sample_batch (demo_env [1]) 2 100 None None (1 / 100) None demo_world)
     = Inr \<lparr>dtypes = [(''x'', KindI)], rows = [[(''x'', IntV 0)], [(''x'', IntV 2)]]\<rparr>
   \<and> len \<lparr>dtypes = [(''x'', KindI)], rows = [[(''x'', IntV 0)], [(''x'', IntV 2)]]\<rparr> \<le> 2
   \<and> fst (sample_in_batches (demo_env [1]) 3 2 100 None None (1 / 100) None demo_world)
     = Inr \<lparr>dtypes = [(''x'', KindI)],
            rows = [[(''x'', IntV 0)], [(''x'', IntV 2)], [(''x'', IntV 4)]]\<rparr>
   \<and> len \<lparr>dtypes = [(''x'', KindI)],
            rows = [[(''x'', IntV 0)], [(''x'', IntV 2)], [(''x'', IntV 4)]]\<rparr> \<le> 3"
proof -
  have h1: "fst (sample_batch (demo_env [1]) 2 100 None None (1 / 100) None demo_world)
     = Inr \<lparr>dtypes = [(''x'', KindI)], rows = [[(''x'', IntV 0)], [(''x'', IntV 2)]]\<rparr>"
    by code_simp
  have h2: "fst (sample_in_batches (demo_env [1]) 3 2 100 None None (1 / 100) None demo_world)
     = Inr \<lparr>dtypes = [(''x'', KindI)],
            rows = [[(''x'', IntV 0)], [(''x'', IntV 2)], [(''x'', IntV 4)]]\<rparr>"
    by code_simp
  from batch_result_within_target[of "demo_env [1]" 2 100 None None "1 / 100" None demo_world
      "\<lparr>dtypes = [(''x'', KindI)], rows = [[(''x'', IntV 0)], [(''x'', IntV 2)]]\<rparr>"
      3 "\<lparr>dtypes = [(''x'', KindI)],
            rows = [[(''x'', IntV 0)], [(''x'', IntV 2)], [(''x'', IntV 4)]]\<rparr>"]
    h1 h2
  show ?thesis by blast
qed

theorem accumulator_exceeds_target_counterexample:
  "fst (batch_loop (demo_env [1]) 2 100 None None (1 / 100) None (initial_state 2) demo_world)
     = Inr \<lparr>counter = 2, num_valid = 3, remaining = - 1, num_rows_to_sample = - 1,
        sampled = \<lparr>dtypes = [(''x'', KindI)],
             rows = [[(''x'', IntV 0)], [(''x'', IntV 2)], [(''x'', IntV 3)]]\<rparr>\<rparr>
   \<and> \<not> len \<lparr>dtypes = [(''x'', KindI)],
             rows = [[(''x'', IntV 0)], [(''x'', IntV 2)], [(''x'', IntV 3)]]\<rparr> \<le> 2"
  by code_simp



section \<open>Unconditioned sampling returns what the loop could produce\<close>



















section \<open>The output path and the empty request\<close>

lemma randomize_samples_keeps:
  "fs (randomize_samples env randomize w) = fs w
   \<and> gen_calls (randomize_samples env randomize w) = gen_calls w"
  by (simp add: randomize_samples_def)

lemma validate_existing_path:
  assumes "p \<noteq> []" and "p \<noteq> DISABLE_TMP_FILE" and "fs w (abspath env p) \<noteq> None"
  shows "validate_file_path env (Some p) w
       = (Inl (AssertionError (abspath env p @ '' already exists.'')), w)"
  using assms by (simp add: validate_file_path_def Let_def)

text \<open>
  C9, as the code has it. Given an explicit output path, other than the sentinel
  \<^verbatim>\<open>'disable'\<close>, whose absolute path exists, \<^verbatim>\<open>sample\<close> with a non-zero number of rows
  and no conditions argument, and \<^verbatim>\<open>sample_conditions\<close>, raise \<^verbatim>\<open>AssertionError\<close>
  before any generator call and leave the file system as it is.
\<close>

theorem existing_output_path_fails_fast:
  assumes "p \<noteq> []" and "p \<noteq> DISABLE_TMP_FILE" and "fs w (abspath env p) \<noteq> None"
  shows "(0 < n \<longrightarrow>
            (\<exists>w'. sample env (Some n) randomize max_tries batch_size (Some p) None w
               = (Inl (AssertionError (abspath env p @ '' already exists.'')), w')
             \<and> fs w' = fs w \<and> gen_calls w' = gen_calls w))
       \<and> sample_conditions env cs max_tries batch_size randomize (Some p) w
            = (Inl (AssertionError (abspath env p @ '' already exists.'')), w)"
proof -
  have f: "fs (randomize_samples env randomize w) (abspath env p) \<noteq> None"
    using assms(3) by (simp add: randomize_samples_keeps)
  have v1: "validate_file_path env (Some p) (randomize_samples env randomize w)
       = (Inl (AssertionError (abspath env p @ '' already exists.'')), randomize_samples env randomize w)"
    using assms(1,2) f by (rule validate_existing_path)
  have v2: "validate_file_path env (Some p) w
       = (Inl (AssertionError (abspath env p @ '' already exists.'')), w)"
    using assms by (rule validate_existing_path)
  show ?thesis
    using v1 v2 randomize_samples_keeps[of env randomize w]
    by (simp add: sample_def sample_with_progress_bar_def sample_conditions_def)
qed

theorem existing_output_path_fails_fast_witness:
  "''out.csv'' \<noteq> [] \<and> ''out.csv'' \<noteq> DISABLE_TMP_FILE
   \<and> fs (demo_world\<lparr>fs := [''out.csv'' \<mapsto> [Header [''x'']]]\<rparr>) (abspath (demo_env []) ''out.csv'') \<noteq> None
   \<and> fst (sample (demo_env []) (Some 3) True 100 None (Some ''out.csv'') None
          (demo_world\<lparr>fs := [''out.csv'' \<mapsto> [Header [''x'']]]\<rparr>))
       = Inl (AssertionError ''out.csv already exists.'')
   \<and> sample_conditions (demo_env []) [Condition [(''a'', IntV 1)] 2] 100 None True (Some ''out.csv'')
          (demo_world\<lparr>fs := [''out.csv'' \<mapsto> [Header [''x'']]]\<rparr>)
       = (Inl (AssertionError ''out.csv already exists.''),
          demo_world\<lparr>fs := [''out.csv'' \<mapsto> [Header [''x'']]]\<rparr>)"
proof -
  have h1: "''out.csv'' \<noteq> []" by simp
  have h2: "''out.csv'' \<noteq> DISABLE_TMP_FILE" by (simp add: DISABLE_TMP_FILE_def)
  have h3: "fs (demo_world\<lparr>fs := [''out.csv'' \<mapsto> [Header [''x'']]]\<rparr>)
      (abspath (demo_env []) ''out.csv'') \<noteq> None"
    by (simp add: demo_env_def)
  have a: "abspath (demo_env []) ''out.csv'' = ''out.csv''" by (simp add: demo_env_def)
  from existing_output_path_fails_fast[OF h1 h2 h3, of 3 True 100 None "[Condition [(''a'', IntV 1)] 2]"]
    h1 h2 h3 a
  show ?thesis by auto
qed

theorem existing_path_zero_rows_counterexample:
  "fs (demo_world\<lparr>fs := [''out.csv'' \<mapsto> [Header [''x'']]]\<rparr>) (abspath (demo_env []) ''out.csv'')
     = Some [Header [''x'']]
   \<and> fst (sample (demo_env []) (Some 0) True 100 None (Some ''out.csv'') None
          (demo_world\<lparr>fs := [''out.csv'' \<mapsto> [Header [''x'']]]\<rparr>))
       = Inr empty_frame"
  by (simp add: sample_def sample_with_progress_bar_def demo_env_def)

text \<open>
  C10, as the code has it. \<^verbatim>\<open>sample\<close> with \<open>num_rows = 0\<close> and no conditions argument
  returns the empty frame and leaves the world as it is: no generator call, no change of
  the generator's random state, no file validated, created or removed, whatever the
  output path. With the deprecated conditions argument it raises \<^verbatim>\<open>TypeError\<close>, and
  leaves the world as it is as well.
\<close>

theorem sample_zero_rows:
  "sample env (Some 0) randomize max_tries batch_size output_file_path None w
     = (Inr empty_frame, w)
   \<and> sample env (Some 0) randomize max_tries batch_size output_file_path (Some c) w
     = (Inl (TypeError ''This method does not support the conditions parameter.''), w)"
  by (simp add: sample_def sample_with_progress_bar_def)

theorem sample_zero_rows_witness:
  "sample (demo_env []) (Some 0) True 100 None (Some ''out.csv'') None
      (demo_world\<lparr>fs := [''out.csv'' \<mapsto> [Header [''x'']]]\<rparr>)
     = (Inr empty_frame, demo_world\<lparr>fs := [''out.csv'' \<mapsto> [Header [''x'']]]\<rparr>)"
  using sample_zero_rows[of "demo_env []" True 100 None "Some ''out.csv''"
      "demo_world\<lparr>fs := [''out.csv'' \<mapsto> [Header [''x'']]]\<rparr>"]
  by simp

theorem sample_zero_rows_with_conditions_counterexample:
  "fst (sample (demo_env []) (Some 0) True 100 None None (Some [(''a'', IntV 1)]) demo_world)
     = Inl (TypeError ''This method does not support the conditions parameter.'')"
  by (simp add: sample_def sample_with_progress_bar_def)

section \<open>Strict mode of conditioned sampling\<close>

text \<open>
  C3. When the conditioned call has passed validation and the partitions together
  returned fewer rows than the conditions ask for, \<^verbatim>\<open>sample_conditions\<close> raises
  \<open>InsufficientRows\<close>, which names \<^verbatim>\<open>max_tries_per_batch\<close> and \<^verbatim>\<open>batch_size\<close>.
\<close>

theorem strict_shortfall_raises:
  assumes "fst (validate_file_path env output_file_path w) = Inr path"
    and "validate_all env (make_condition_dfs cs) = Inr ()"
    and "fst (sample_condition_frames env (make_condition_dfs cs) max_tries batch_size path []
           (randomize_samples env randomize (snd (validate_file_path env output_file_path w))))
         = Inr rs"
    and "length rs < foldl (\<lambda>acc c. get_num_rows c + acc) 0 cs"
  shows "\<exists>reject levers.
           fst (sample_conditions env cs max_tries batch_size randomize output_file_path w)
             = Inl (InsufficientRows reject levers)
           \<and> ''max_tries_per_batch'' \<in> set levers \<and> ''batch_size'' \<in> set levers"
proof -
  obtain w1 where v: "validate_file_path env output_file_path w = (Inr path, w1)"
    using assms(1) by (cases "validate_file_path env output_file_path w") auto
  obtain w2 where s: "sample_condition_frames env (make_condition_dfs cs) max_tries batch_size
      path [] (randomize_samples env randomize w1) = (Inr rs, w2)"
    using assms(3) v
    by (cases "sample_condition_frames env (make_condition_dfs cs) max_tries batch_size
      path [] (randomize_samples env randomize w1)") auto
  have "fst (sample_conditions env cs max_tries batch_size randomize output_file_path w)
      = Inl (InsufficientRows (model_kind env \<noteq> GaussianMultivariate)
              [''max_tries_per_batch'', ''batch_size''])"
    using v s assms(2,4)
    by (simp add: sample_conditions_def Let_def check_num_rows_def handle_sampling_error_def)
  then show ?thesis by auto
qed

theorem strict_shortfall_raises_witness:
  "fst (validate_file_path (demo_env [1]) (Some ''disable'') demo_world) = Inr None
   \<and> validate_all (demo_env [1]) (make_condition_dfs [Condition [(''a'', IntV 1)] 2]) = Inr ()
   \<and> fst (sample_condition_frames (demo_env [1]) (make_condition_dfs [Condition [(''a'', IntV 1)] 2])
            1 None None []
           (randomize_samples (demo_env [1]) True
              (snd (validate_file_path (demo_env [1]) (Some ''disable'') demo_world))))
         = Inr [[(''a'', IntV 1), (''x'', IntV 0)]]
   \<and> length [[(''a'', IntV 1), (''x'', IntV 0)]]
        < foldl (\<lambda>acc c. get_num_rows c + acc) 0 [Condition [(''a'', IntV 1)] 2]
   \<and> fst (sample_conditions (demo_env [1]) [Condition [(''a'', IntV 1)] 2] 1 None True
             (Some ''disable'') demo_world)
       = Inl (InsufficientRows True [''max_tries_per_batch'', ''batch_size''])"
proof -
  have h1: "fst (validate_file_path (demo_env [1]) (Some ''disable'') demo_world) = Inr None"
    by code_simp
  have h2: "validate_all (demo_env [1]) (make_condition_dfs [Condition [(''a'', IntV 1)] 2]) = Inr ()"
    by code_simp
  have h3: "fst (sample_condition_frames (demo_env [1]) (make_condition_dfs [Condition [(''a'', IntV 1)] 2])
            1 None None []
           (randomize_samples (demo_env [1]) True
              (snd (validate_file_path (demo_env [1]) (Some ''disable'') demo_world))))
         = Inr [[(''a'', IntV 1), (''x'', IntV 0)]]"
    by code_simp
  have h4: "length [[(''a'', IntV 1), (''x'', IntV 0)]]
        < foldl (\<lambda>acc c. get_num_rows c + acc) 0 [Condition [(''a'', IntV 1)] 2]"
    by simp
  have m: "model_kind (demo_env [1]) \<noteq> GaussianMultivariate" by (simp add: demo_env_def)
  have run: "fst (sample_conditions (demo_env [1]) [Condition [(''a'', IntV 1)] 2] 1 None True
             (Some ''disable'') demo_world)
       = Inl (InsufficientRows True [''max_tries_per_batch'', ''batch_size''])"
    by code_simp
  from strict_shortfall_raises[OF h1 h2 h3 h4] h1 h2 h3 h4 run show ?thesis by simp
qed

section \<open>Reassembling the partitions in ticket order\<close>







text \<open>
  The assignment \<^verbatim>\<open>transformed_conditions[COND_IDX] = dataframe[COND_IDX]\<close> aligns on
  index labels. A raw group whose rows are not the first rows of the conditions frame
  loses tickets there: of the conditions \<open>a = 1\<close>, \<open>a = 2\<close>, \<open>a = 1\<close> only the first row
  keeps its ticket, and the rows come out as \<open>a = 1\<close>, \<open>a = 1\<close>, \<open>a = 2\<close>.
\<close>

lemma tickets_lost_by_alignment:
  "fst (sample_with_conditions (demo_env [])
          \<lparr>dtypes = [(''a'', KindI)],
           rows = [[(''a'', IntV 1)], [(''a'', IntV 2)], [(''a'', IntV 1)]]\<rparr>
          100 None None demo_world)
     = Inr [(Some 0, [(''a'', IntV 1), (''x'', IntV 0)]),
            (None, [(''a'', IntV 1), (''x'', IntV 1)]),
            (None, [(''a'', IntV 2), (''x'', IntV 2)])]"
  by code_simp

section \<open>Identical conditions form one group\<close>

lemma those_map_Some: "those (map Some xs) = Some xs"
  by (induction xs) simp_all

lemma key_of_own_columns:
  assumes "distinct (map fst cv)"
  shows "key_of (map fst cv) cv = Some (map snd cv)"
proof -
  have h: "map (map_of cv) (map fst cv) = map Some (map snd cv)"
    using assms by (auto simp: map_of_eq_Some_iff)
  show ?thesis unfolding key_of_def h by (rule those_map_Some)
qed

lemma those_total:
  "\<forall>x \<in> set xs. f x \<noteq> None \<Longrightarrow> \<exists>ys. those (map f xs) = Some ys"
  by (induction xs) (auto split: option.splits)

lemma key_of_total: "\<exists>k. key_of (map fst trow) trow = Some k"
proof -
  have "\<forall>c \<in> set (map fst trow). map_of trow c \<noteq> None"
    by (auto simp: map_of_eq_None_iff)
  then show ?thesis unfolding key_of_def by (rule those_total)
qed

lemma key_eq_refl: "key_eq k k"
  by (simp add: key_eq_def list_all2_same py_eq_refl)

lemma distinct_keys_same: "distinct_keys (replicate (Suc n) k) = [k]"
  by (simp add: key_eq_refl)

lemma groupby_single:
  assumes "cols \<noteq> []" and "members \<noteq> []"
    and "\<forall>m \<in> set members. key_of cols (snd (snd m)) = Some k"
  shows "groupby cols members = Inr [(k, members)]"
proof -
  have keyed: "List.map_filter (\<lambda>m. map_option (\<lambda>k. (k, m)) (key_of cols (snd (snd m)))) members
      = map (\<lambda>m. (k, m)) members"
    using assms(3) by (induction members) (simp_all add: List.map_filter_simps)
  obtain n where n: "length members = Suc n" using assms(2) by (cases members) auto
  have keys: "map fst (map (\<lambda>m. (k, m)) members) = replicate (Suc n) k"
    using n by (simp add: o_def map_replicate_const)
  have f: "filter (\<lambda>km. key_eq (fst km) k) (map (\<lambda>m. (k, m)) members) = map (\<lambda>m. (k, m)) members"
    by (simp add: filter_id key_eq_refl)
  show ?thesis
    unfolding groupby_def Let_def keyed keys distinct_keys_same f using assms(1)
    by (simp add: sort_keys_def o_def filter_map filter_id key_eq_refl)
qed

lemma find_label:
  assumes "j < n"
  shows "find (\<lambda>m. fst m = j) (map (\<lambda>i. (i, g i)) [0..<n]) = Some (j, g j)"
proof -
  let ?xs = "map (\<lambda>i. (i, g i)) [0..<n]"
  have a: "j < length ?xs" using assms by simp
  have b: "fst (?xs ! j) = j" and c: "(j, g j) = ?xs ! j" using assms by simp_all
  have d: "\<forall>i<j. \<not> fst (?xs ! i) = j" using assms by simp
  from a b c d show ?thesis unfolding find_Some_iff by blast
qed

lemma zip_replicate: "zip xs (replicate (length xs) x) = map (\<lambda>i. (i, x)) xs"
  by (induction xs) simp_all

lemma reset_index_replicate:
  assumes "rows df = replicate n r"
  shows "reset_index df = map (\<lambda>i. (i, Some (int i), r)) [0..<n]"
  using zip_replicate[of "[0..<n]" r] assms by (simp add: reset_index_def)

lemma join_dtypes_keys:
  "fst ` set es \<subseteq> fst ` set ds \<Longrightarrow> map fst (join_dtypes ds es) = map fst ds"
proof (induction es arbitrary: ds)
  case Nil
  then show ?case by simp
next
  case (Cons e es)
  obtain c k where e: "e = (c, k)" by (cases e)
  with Cons.prems have c: "c \<in> fst ` set ds" and rest: "fst ` set es \<subseteq> fst ` set ds" by auto
  from c obtain k' where k': "map_of ds c = Some k'"
    by (metis map_of_eq_None_iff not_None_eq)
  have keys: "map fst (AList.update c (join_kind k' k) ds) = map fst ds"
    using c by (simp add: update_keys)
  then have "fst ` set es \<subseteq> fst ` set (AList.update c (join_kind k' k) ds)"
    using rest by (metis list.set_map)
  from Cons.IH[OF this] keys show ?case using e k' by simp
qed

lemma two_identical_conditions_frame:
  assumes "cv \<noteq> []"
  shows "\<exists>df. make_condition_dfs [Condition cv 3, Condition cv 7] = [df]
           \<and> rows df = replicate 10 cv \<and> columns df = map fst cv"
proof -
  let ?d = "map (\<lambda>(k, v). (k, kind_of v)) cv"
  let ?df = "concat_frames [condition_frame (Condition cv 3), condition_frame (Condition cv 7)]"
  have m: "make_condition_dfs [Condition cv 3, Condition cv 7] = [?df]"
    by (simp add: make_condition_dfs_def condition_dataframes_def)
  have r: "rows ?df = replicate 10 cv"
    by (simp add: concat_frames_def concat2_def condition_frame_def empty_frame_def
        flip: replicate_add)
  have fd: "map fst ?d = map fst cv" by (simp add: case_prod_unfold o_def)
  have "?d \<noteq> []" using assms by simp
  then have "dtypes ?df = join_dtypes ?d ?d"
    by (simp add: concat_frames_def concat2_def condition_frame_def empty_frame_def)
  then have c: "columns ?df = map fst cv"
    using join_dtypes_keys[of ?d ?d] fd by (simp add: columns_def)
  from m r c show ?thesis by blast
qed

text \<open>
  C7, as the code has it. Two conditions with the same items in the same column order
  (at least one column), with counts 3 and 7, give one conditions frame of 10 rows, one
  raw group holding the 10 rows with the tickets 0 to 9, and, when the transform of the
  condition succeeds, exactly one sampling run, for 10 rows with those tickets.
\<close>

theorem identical_conditions_single_group:
  assumes "cv \<noteq> []" and "distinct (map fst cv)" and "transform env cv = Inr trow"
  shows "\<exists>df. make_condition_dfs [Condition cv 3, Condition cv 7] = [df]
           \<and> rows df = replicate 10 cv
           \<and> groupby (columns df) (reset_index df)
               = Inr [(map snd cv, map (\<lambda>i. (i, Some (int i), cv)) [0..<10])]
           \<and> sample_with_conditions env df max_tries batch_size path w
               = (case conditionally_sample_rows env (map (\<lambda>i. Some (int i)) [0..<10]) cv
                         (transformed_condition_of trow) max_tries batch_size (1 / 100) True
                         path w of
                    (Inl e, w1) \<Rightarrow> (Inl e, w1)
                  | (Inr part, w1) \<Rightarrow> (Inr (reassemble env [part]), w1))"
proof -
  from two_identical_conditions_frame[OF assms(1)] obtain df where
    m: "make_condition_dfs [Condition cv 3, Condition cv 7] = [df]"
    and r: "rows df = replicate 10 cv" and c: "columns df = map fst cv" by blast
  let ?members = "map (\<lambda>i. (i, Some (int i), cv)) [0..<10]"
  have ri: "reset_index df = ?members" using r by (rule reset_index_replicate)
  have cols: "map fst cv \<noteq> []" using assms(1) by simp
  have mem: "?members \<noteq> []" by simp
  have g: "groupby (columns df) (reset_index df) = Inr [(map snd cv, ?members)]"
    unfolding c ri
    by (rule groupby_single[OF cols mem]) (simp add: key_of_own_columns[OF assms(2)])
  have hd: "(case ?members of [] \<Rightarrow> [] | m # ms \<Rightarrow> snd (snd m)) = cv"
    by (simp add: upt_rec)
  have tickets: "map (\<lambda>m. fst (snd m)) ?members = map (\<lambda>i. Some (int i)) [0..<10]"
    by (simp add: o_def)
  have raw: "sample_raw_group env (map fst cv) (map snd cv, ?members) max_tries batch_size path w
      = (case conditionally_sample_rows env (map (\<lambda>i. Some (int i)) [0..<10]) cv
                 (transformed_condition_of trow) max_tries batch_size (1 / 100) True path w of
           (Inl e, w1) \<Rightarrow> (Inl e, w1)
         | (Inr part, w1) \<Rightarrow> (Inr [part], w1))"
  proof (cases "trow = []")
    case True
    then show ?thesis
      unfolding sample_raw_group_def prod.case Let_def hd assms(3) sum.case tickets
      by (simp add: zip_map_fst_snd transformed_condition_of_def)
  next
    case False
    obtain tk where tk: "key_of (map fst trow) trow = Some tk" using key_of_total by blast
    let ?tm = "transformed_members trow ?members"
    have al: "aligned_ticket ?members j = Some (int j)" if "j < 10" for j
    proof -
      have "find (\<lambda>m. fst m = j) ?members = Some (j, Some (int j), cv)"
        using that by (rule find_label)
      then show ?thesis by (simp add: aligned_ticket_def)
    qed
    have tm: "?tm = map (\<lambda>j. (j, Some (int j), trow)) [0..<10]"
      unfolding transformed_members_def using al by (auto simp: map_eq_conv)
    have tg: "groupby (map fst trow) ?tm = Inr [(tk, ?tm)]"
    proof (rule groupby_single)
      show "map fst trow \<noteq> []" using False by simp
      show "?tm \<noteq> []" unfolding tm by simp
      show "\<forall>m \<in> set ?tm. key_of (map fst trow) (snd (snd m)) = Some tk"
        unfolding tm using tk by simp
    qed
    have tt: "map (\<lambda>m. fst (snd m)) ?tm = map (\<lambda>i. Some (int i)) [0..<10]"
      unfolding tm by (simp add: o_def)
    have tc: "transformed_condition_of trow = Some (zip (map fst trow) tk)"
      using False tk by (simp add: transformed_condition_of_def)
    show ?thesis
      unfolding sample_raw_group_def prod.case Let_def hd assms(3) sum.case tc
      using False
      by (simp add: tg tt zip_map_fst_snd split: prod.splits sum.splits)
  qed
  have s: "sample_with_conditions env df max_tries batch_size path w
      = (case conditionally_sample_rows env (map (\<lambda>i. Some (int i)) [0..<10]) cv
                 (transformed_condition_of trow) max_tries batch_size (1 / 100) True path w of
           (Inl e, w1) \<Rightarrow> (Inl e, w1)
         | (Inr part, w1) \<Rightarrow> (Inr (reassemble env [part]), w1))"
  proof -
    have g': "groupby (map fst cv) (reset_index df) = Inr [(map snd cv, ?members)]"
      using g c by simp
    show ?thesis
      unfolding sample_with_conditions_def Let_def c g' sum.case
      by (simp add: raw split: prod.splits sum.splits)
  qed
  from m r g s show ?thesis by blast
qed

theorem identical_conditions_single_group_witness:
  "[(''a'', IntV 1)] \<noteq> [] \<and> distinct (map fst [(''a'', IntV 1)])
   \<and> transform (demo_env []) [(''a'', IntV 1)] = Inr [(''a'', IntV 1)]
   \<and> (\<exists>df. make_condition_dfs [Condition [(''a'', IntV 1)] 3, Condition [(''a'', IntV 1)] 7] = [df]
           \<and> rows df = replicate 10 [(''a'', IntV 1)]
           \<and> groupby (columns df) (reset_index df)
               = Inr [(map snd [(''a'', IntV 1)],
                       map (\<lambda>i. (i, Some (int i), [(''a'', IntV 1)])) [0..<10])])"
proof -
  have h1: "[(''a'', IntV 1)] \<noteq> []" by simp
  have h2: "distinct (map fst [(''a'', IntV 1)])" by simp
  have h3: "transform (demo_env []) [(''a'', IntV 1)] = Inr [(''a'', IntV 1)]"
    by (simp add: demo_env_def)
  from identical_conditions_single_group[OF h1 h2 h3] h1 h2 h3 show ?thesis by blast
qed

theorem reordered_columns_two_groups_counterexample:
  "map_of [(''a'', IntV 1), (''b'', IntV 2)] = map_of [(''b'', IntV 2), (''a'', IntV 1)]
   \<and> map len (make_condition_dfs
        [Condition [(''a'', IntV 1), (''b'', IntV 2)] 3,
         Condition [(''b'', IntV 2), (''a'', IntV 1)] 7]) = [3, 7]"
proof
  show "map_of [(''a'', IntV 1), (''b'', IntV 2)] = map_of [(''b'', IntV 2), (''a'', IntV 1)]"
    by (auto simp: fun_eq_iff)
  show "map len (make_condition_dfs
        [Condition [(''a'', IntV 1), (''b'', IntV 2)] 3,
         Condition [(''b'', IntV 2), (''a'', IntV 1)] 7]) = [3, 7]"
    by code_simp
qed

end
